theory Spec2Isabelle
  imports Complex_Main "HOL-Library.Word" "HOL-Library.List_Lexorder"
begin

unbundle bit_operations_syntax

section \<open>JavaScript values\<close>

text \<open>
  A JavaScript string is a sequence of UTF-16 code units; \<open>length\<close> counts code units,
  as \<^verbatim>\<open>String.prototype.length\<close> does. Identifiers, digests and model ids
  are plain ASCII and are kept as \<open>string\<close>.
\<close>

type_synonym js_string = "16 word list"

definition js :: "string \<Rightarrow> js_string" where
  "js s = map of_char s"

text \<open>
  The code units removed by \<^verbatim>\<open>String.prototype.trim\<close> and matched by the regular
  expression class \<^verbatim>\<open>\s\<close>: ECMAScript WhiteSpace and LineTerminator.
\<close>

definition is_ws :: "16 word \<Rightarrow> bool" where
  "is_ws c = (c \<in> {0x09, 0x0A, 0x0B, 0x0C, 0x0D, 0x20, 0xA0, 0x1680,
                     0x2028, 0x2029, 0x202F, 0x205F, 0x3000, 0xFEFF}
              \<or> (0x2000 \<le> c \<and> c \<le> 0x200A))"

definition trim :: "js_string \<Rightarrow> js_string" where
  "trim s = rev (dropWhile is_ws (rev (dropWhile is_ws s)))"

text \<open>
  A value as \<^verbatim>\<open>JSON.parse\<close> produces it. An object is the list of its members in
  insertion order; its keys are pairwise distinct. A number is the
  rational it denotes.
\<close>

datatype json =
    JNull
  | JBool bool
  | JNum rat
  | JStr js_string
  | JArr "json list"
  | JObj "(js_string \<times> json) list"

datatype js_error = Error js_string

section \<open>OCR extraction with fallback chain\<close>

record ocr_model =
  model_id :: string
  model_name :: string

definition OCR_MODEL_CHAIN :: "ocr_model list" where
  "OCR_MODEL_CHAIN =
    [\<lparr>model_id = ''meta-llama/llama-3.2-11b-vision-instruct:free'', model_name = ''Llama 3.2 Vision (Free)''\<rparr>,
     \<lparr>model_id = ''qwen/qwen-2.5-vl-7b-instruct:free'', model_name = ''Qwen 2.5 VL (Free)''\<rparr>,
     \<lparr>model_id = ''google/gemini-flash-1.5'', model_name = ''Gemini Flash 1.5''\<rparr>,
     \<lparr>model_id = ''openai/gpt-4o-mini'', model_name = ''GPT-4o Mini''\<rparr>,
     \<lparr>model_id = ''anthropic/claude-3-haiku'', model_name = ''Claude 3 Haiku''\<rparr>,
     \<lparr>model_id = ''anthropic/claude-3.5-sonnet'', model_name = ''Claude 3.5 Sonnet''\<rparr>]"

text \<open>
  What the request to one model meets, up to the text it returns:
  \<^item> \<open>AbortError\<close>: the 45 second timer aborted the request;
  \<^item> \<open>Exception msg\<close>: any other exception raised by the request or by reading the
    response (a network failure, a body that is not JSON);
  \<^item> \<open>NotOk status\<close>: a response with \<^verbatim>\<open>response.ok\<close> false;
  \<^item> \<open>Content c\<close>: a response that is ok, \<open>c\<close> being
    \<^verbatim>\<open>result.choices?.[0]?.message?.content\<close> (\<open>None\<close> for \<^verbatim>\<open>undefined\<close>).
\<close>

datatype attempt =
    AbortError
  | Exception js_string
  | NotOk nat
  | Content "json option"

text \<open>
  The world outside the function: the environment variable; the provider's answer to
  the request for a model id and an image; the outcome of saving the text of a model to
  its reference file \<^verbatim>\<open>test-results/ocr-result-<id>.txt\<close> (creating the directory
  and writing the file), \<open>None\<close> when it is written and the message of the exception
  otherwise; and the clock readings that tag a result.
\<close>

record ocr_env =
  OPENROUTER_API_KEY :: "string option"
  fetch_completion :: "string \<Rightarrow> string \<Rightarrow> attempt"
  save_text_error :: "string \<Rightarrow> js_string \<Rightarrow> js_string option"
  responseTime_of :: "string \<Rightarrow> string"
  extractedAt_of :: "string \<Rightarrow> string"

record ocr_metadata =
  responseTime :: string
  extractedAt :: string
  textLength :: nat

record ocr_result =
  success :: bool
  ocr_text :: js_string
  model :: ocr_model
  metadata :: ocr_metadata

text \<open>
  The lines the function logs about a model, in order: its only trace of the providers it
  called. \<open>Attempting\<close> is the line before the request, \<open>Extracted\<close> the line
  \<^verbatim>\<open>Successfully extracted text with ...\<close>, \<open>ExceptionDuring\<close> the line
  \<^verbatim>\<open>Exception during ... API call, will try next model\<close> of the
  \<^verbatim>\<open>catch\<close> block.
\<close>

datatype ocr_event =
    Attempting ocr_model
  | RequestFailed ocr_model nat
  | InsufficientText ocr_model
  | TimedOut ocr_model
  | ExceptionDuring ocr_model js_string
  | Extracted ocr_model
  | AllFailed

text \<open>
  \<^verbatim>\<open>!extractedText || typeof extractedText !== 'string' || extractedText.trim().length < 20\<close>
\<close>

fun js_falsy :: "json option \<Rightarrow> bool" where
  "js_falsy None = True"
| "js_falsy (Some JNull) = True"
| "js_falsy (Some (JBool b)) = (\<not> b)"
| "js_falsy (Some (JNum n)) = (n = 0)"
| "js_falsy (Some (JStr s)) = (s = [])"
| "js_falsy (Some (JArr xs)) = False"
| "js_falsy (Some (JObj kvs)) = False"

fun insufficient_text :: "json option \<Rightarrow> bool" where
  "insufficient_text (Some (JStr s)) = (js_falsy (Some (JStr s)) \<or> length (trim s) < 20)"
| "insufficient_text c = True"

text \<open>
  The line logged for insufficient text takes \<^verbatim>\<open>extractedText?.substring(0, 50)\<close>
  as an argument. For a content that is \<^verbatim>\<open>undefined\<close> or \<^verbatim>\<open>null\<close> the
  optional chain yields \<^verbatim>\<open>undefined\<close>; for a string it yields the sample; for a
  number, a boolean, an array or an object there is no function \<^verbatim>\<open>substring\<close> and
  the call throws a \<^verbatim>\<open>TypeError\<close> before anything is logged.
\<close>

fun substring_throws :: "json option \<Rightarrow> bool" where
  "substring_throws None = False"
| "substring_throws (Some JNull) = False"
| "substring_throws (Some (JStr s)) = False"
| "substring_throws (Some v) = True"

definition substring_type_error :: js_string where
  "substring_type_error = js ''extractedText?.substring is not a function''"

definition all_models_failed :: js_error where
  "all_models_failed =
     Error (js ''OCR failed '' @ [0x2013] @ js '' all models failed to extract valid text from the image'')"

text \<open>
  \<^verbatim>\<open>continue\<close>, or the end of the \<^verbatim>\<open>catch\<close> block: the lines logged for this
  model, then the rest of the chain.
\<close>

definition next_model ::
  "ocr_model \<Rightarrow> ocr_event list \<Rightarrow> ocr_event list \<times> (js_error + ocr_result) \<Rightarrow>
   ocr_event list \<times> (js_error + ocr_result)" where
  "next_model m evs rest = (Attempting m # evs @ fst rest, snd rest)"

text \<open>
  The loop over the chain. The whole body of an iteration is one \<^verbatim>\<open>try\<close> block,
  so the \<^verbatim>\<open>catch\<close> block also receives the \<^verbatim>\<open>TypeError\<close> of the logging
  and an exception of saving the reference file, which comes after the line of success
  and before the \<^verbatim>\<open>return\<close>. Where the content is not a string the validation
  is true by its second disjunct.
\<close>

fun ocr_loop :: "ocr_env \<Rightarrow> string \<Rightarrow> ocr_model list \<Rightarrow> ocr_event list \<times> (js_error + ocr_result)" where
  "ocr_loop env imageBase64 [] = ([AllFailed], Inl all_models_failed)"
| "ocr_loop env imageBase64 (m # ms) =
     (case fetch_completion env (model_id m) imageBase64 of
        AbortError \<Rightarrow> next_model m [TimedOut m] (ocr_loop env imageBase64 ms)
      | Exception msg \<Rightarrow> next_model m [ExceptionDuring m msg] (ocr_loop env imageBase64 ms)
      | NotOk status \<Rightarrow> next_model m [RequestFailed m status] (ocr_loop env imageBase64 ms)
      | Content extractedText \<Rightarrow>
          (case extractedText of
             Some (JStr t) \<Rightarrow>
               if insufficient_text extractedText
               then next_model m [InsufficientText m] (ocr_loop env imageBase64 ms)
               else (case save_text_error env (model_id m) t of
                       Some msg \<Rightarrow>
                         next_model m [Extracted m, ExceptionDuring m msg] (ocr_loop env imageBase64 ms)
                     | None \<Rightarrow>
                         ([Attempting m, Extracted m],
                          Inr \<lparr>success = True, ocr_text = t, model = m,
                               metadata = \<lparr>responseTime = responseTime_of env (model_id m),
                                           extractedAt = extractedAt_of env (model_id m),
                                           textLength = length t\<rparr>\<rparr>))
           | _ \<Rightarrow>
               if substring_throws extractedText
               then next_model m [ExceptionDuring m substring_type_error] (ocr_loop env imageBase64 ms)
               else next_model m [InsufficientText m] (ocr_loop env imageBase64 ms)))"

text \<open>
  The chain is the module constant \<open>OCR_MODEL_CHAIN\<close>; it is a parameter here, so that
  a property can be stated for every chain.
\<close>

definition runOcrWithFallbackChain ::
  "ocr_model list \<Rightarrow> ocr_env \<Rightarrow> string \<Rightarrow> ocr_event list \<times> (js_error + ocr_result)" where
  "runOcrWithFallbackChain chain env imageBase64 =
     (case OPENROUTER_API_KEY env of
        None \<Rightarrow> ([], Inl (Error (js ''OpenRouter API key is missing from environment variables'')))
      | Some k \<Rightarrow>
          if k = [] then ([], Inl (Error (js ''OpenRouter API key is missing from environment variables'')))
          else ocr_loop env imageBase64 chain)"

text \<open>The providers a run called, in order, read off its log.\<close>

fun invoked :: "ocr_event list \<Rightarrow> ocr_model list" where
  "invoked [] = []"
| "invoked (Attempting m # evs) = m # invoked evs"
| "invoked (ev # evs) = invoked evs"

text \<open>
  A provider that fails, in the words of the spec: a timeout, a response that is not a
  success (an exception or a status that is not ok), or an output that is no text or has
  fewer than 20 code units after trimming.
\<close>

fun attempt_fails :: "attempt \<Rightarrow> bool" where
  "attempt_fails (Content (Some (JStr t))) = (length (trim t) < 20)"
| "attempt_fails a = True"

text \<open>
  Modelled from the spec: the three kinds of sub-failure of section 4.1 (the source has
  no such type; it logs one line per failed attempt), and the kind the spec gives to a
  failed attempt.
\<close>

datatype sub_failure = Timeout | ProviderError | InsufficientOutput


text \<open>
  The kind of the line the code logs for a failed attempt. It differs from the spec's kind
  where an ok response carries a content that is neither a string nor
  \<^verbatim>\<open>null\<close>: the code logs that as an exception.
\<close>

fun logged_kind :: "attempt \<Rightarrow> sub_failure" where
  "logged_kind AbortError = Timeout"
| "logged_kind (Exception msg) = ProviderError"
| "logged_kind (NotOk status) = ProviderError"
| "logged_kind (Content None) = InsufficientOutput"
| "logged_kind (Content (Some JNull)) = InsufficientOutput"
| "logged_kind (Content (Some (JStr s))) = InsufficientOutput"
| "logged_kind (Content (Some v)) = ProviderError"

text \<open>The failures a run logged, in order, in the spec's three kinds.\<close>

fun logged_failures :: "ocr_event list \<Rightarrow> sub_failure list" where
  "logged_failures [] = []"
| "logged_failures (TimedOut m # evs) = Timeout # logged_failures evs"
| "logged_failures (RequestFailed m status # evs) = ProviderError # logged_failures evs"
| "logged_failures (ExceptionDuring m msg # evs) = ProviderError # logged_failures evs"
| "logged_failures (InsufficientText m # evs) = InsufficientOutput # logged_failures evs"
| "logged_failures (ev # evs) = logged_failures evs"

subsection \<open>Example runs\<close>

definition soup_text :: js_string where
  "soup_text = js ''  Soup of the day 9.50  ''"

text \<open>The first model times out, the second answers 429, every other returns the text.\<close>

definition env_third_succeeds :: ocr_env where
  "env_third_succeeds =
     \<lparr>OPENROUTER_API_KEY = Some ''sk-or-test'',
      fetch_completion = (\<lambda>mid img.
         if mid = ''meta-llama/llama-3.2-11b-vision-instruct:free'' then AbortError
         else if mid = ''qwen/qwen-2.5-vl-7b-instruct:free'' then NotOk 429
         else Content (Some (JStr soup_text))),
      save_text_error = (\<lambda>mid t. None),
      responseTime_of = (\<lambda>mid. ''1.20''),
      extractedAt_of = (\<lambda>mid. ''2025-01-01T00:00:00.000Z'')\<rparr>"



text \<open>
  Every model returns a menu, the first one the text \<open>soup_text\<close>; the reference file of
  the first model cannot be written.
\<close>

definition salad_text :: js_string where
  "salad_text = js ''House Salad 12.00 mixed leaves''"

definition env_first_cannot_be_saved :: ocr_env where
  "env_first_cannot_be_saved =
     \<lparr>OPENROUTER_API_KEY = Some ''sk-or-test'',
      fetch_completion = (\<lambda>mid img.
         if mid = ''meta-llama/llama-3.2-11b-vision-instruct:free'' then Content (Some (JStr soup_text))
         else Content (Some (JStr salad_text))),
      save_text_error = (\<lambda>mid t.
         if mid = ''meta-llama/llama-3.2-11b-vision-instruct:free''
         then Some (js ''EACCES: permission denied'') else None),
      responseTime_of = (\<lambda>mid. ''1.20''),
      extractedAt_of = (\<lambda>mid. ''2025-01-01T00:00:00.000Z'')\<rparr>"

text \<open>Every model answers with the number 123 as its content.\<close>

definition env_all_return_a_number :: ocr_env where
  "env_all_return_a_number =
     \<lparr>OPENROUTER_API_KEY = Some ''sk-or-test'',
      fetch_completion = (\<lambda>mid img. Content (Some (JNum 123))),
      save_text_error = (\<lambda>mid t. None),
      responseTime_of = (\<lambda>mid. ''0.80''),
      extractedAt_of = (\<lambda>mid. ''2025-01-01T00:00:00.000Z'')\<rparr>"

section \<open>Hash calculation\<close>

subsection \<open>Normalising the text of a menu\<close>




subsection \<open>Stable serialisation\<close>










subsection \<open>The digest\<close>







text \<open>
  The function also writes the serialisation to a file and logs a summary, inside a
  \<^verbatim>\<open>try\<close> block whose \<^verbatim>\<open>catch\<close> only logs: neither changes the value
  returned.
\<close>

subsection \<open>Menus that are the same up to key order and white space\<close>




section \<open>Saving to Supabase\<close>

subsection \<open>The structured result\<close>

record dish =
  dish_name :: js_string
  description :: "js_string option"
  price :: "rat option"
  dietary_tags :: "js_string list option"

record category =
  category_name :: js_string
  dishes :: "dish list option"

record restaurant =
  restaurant_name :: js_string
  location :: js_string

record structured_menu =
  restaurant :: restaurant
  categories :: "category list"

text \<open>
  The OCR result with \<^verbatim>\<open>structuredData\<close>, \<^verbatim>\<open>imageHash\<close> and
  \<^verbatim>\<open>contentHash\<close> added; a hash that is \<^verbatim>\<open>undefined\<close> is \<open>None\<close>.
\<close>

record structured_result = ocr_result +
  structuredData :: structured_menu
  imageHash :: "string option"
  contentHash :: "string option"

subsection \<open>The tables\<close>

text \<open>
  The four tables the functions read and write, each the list of its rows in insertion
  order. A timestamp is a reading of the clock; the id of a \<open>menu_dishes\<close> row is
  generated by the store and never read.
\<close>

record user_profile_row =
  up_id :: string
  up_email :: string
  up_created_at :: nat

record canonical_menus_row =
  cm_id :: string
  cm_content_hash :: "string option"
  cm_dish_count :: nat
  cm_created_at :: nat
  cm_first_scan_id :: "string option"

record menu_scan_row =
  ms_id :: string
  ms_user_id :: string
  ms_menu_raw_text :: js_string
  ms_scanned_at :: nat
  ms_restaurant_name :: js_string
  ms_location :: js_string
  ms_ocr_method :: string
  ms_image_hash :: "string option"
  ms_canonical_menu_id :: string

record menu_dishes_row =
  md_canonical_menu_id :: string
  md_dish_name :: js_string
  md_description :: js_string
  md_price :: "rat option"
  md_category :: js_string
  md_tags :: "js_string list option"

record database =
  user_profile :: "user_profile_row list"
  canonical_menus :: "canonical_menus_row list"
  menu_scan :: "menu_scan_row list"
  menu_dishes :: "menu_dishes_row list"

text \<open>The \<^verbatim>\<open>error\<close> field of a Supabase response.\<close>

record db_error =
  code :: string
  message :: js_string

text \<open>
  What the client of the store answers to each request of one call. The client reports a
  failure in the \<^verbatim>\<open>error\<close> field of its response: \<open>None\<close> is a request the
  store carried out, \<open>Some e\<close> one it refused or never received. The remaining fields
  are the values the call takes from outside: the generated scan id, the id the store
  gives a new \<open>canonical_menus\<close> row, and the readings of the clock.
\<close>

record save_env =
  uuidv4 :: string
  generated_canonical_id :: string
  now_user :: nat
  now_canonical :: nat
  now_scan :: nat
  user_scan_query_error :: "db_error option"
  user_select_error :: "db_error option"
  user_insert_error :: "db_error option"
  canonical_query_error :: "db_error option"
  canonical_insert_error :: "db_error option"
  scan_insert_error :: "db_error option"
  first_scan_update_error :: "db_error option"
  dish_insert_error :: "nat \<Rightarrow> db_error option"

subsection \<open>The duplicate checks\<close>

text \<open>\<^verbatim>\<open>!imageHash\<close>: the hash is \<^verbatim>\<open>undefined\<close> or the empty string.\<close>

fun hash_missing :: "string option \<Rightarrow> bool" where
  "hash_missing None = True"
| "hash_missing (Some h) = (h = [])"

text \<open>
  \<^verbatim>\<open>.order('scanned_at', { ascending: false }).limit(1)\<close>: a row with the greatest
  \<open>scanned_at\<close>; among equal ones the store may return any, here the first.
\<close>

fun most_recent :: "menu_scan_row list \<Rightarrow> menu_scan_row option" where
  "most_recent [] = None"
| "most_recent (r # rs) =
     (case most_recent rs of
        None \<Rightarrow> Some r
      | Some b \<Rightarrow> if ms_scanned_at r < ms_scanned_at b then Some b else Some r)"

text \<open>The columns \<^verbatim>\<open>id, restaurant_name, scanned_at\<close> of a scan.\<close>

record existing_scan =
  es_id :: string
  es_restaurant_name :: js_string
  es_scanned_at :: nat

definition checkForExistingUserScan ::
  "save_env \<Rightarrow> database \<Rightarrow> string \<Rightarrow> string option \<Rightarrow> existing_scan option" where
  "checkForExistingUserScan env db userId image_hash =
     (if hash_missing image_hash then None
      else case user_scan_query_error env of
             Some error \<Rightarrow> None
           | None \<Rightarrow>
               (case most_recent (filter (\<lambda>r. ms_user_id r = userId \<and> ms_image_hash r = image_hash)
                                         (menu_scan db)) of
                  None \<Rightarrow> None
                | Some r \<Rightarrow> Some \<lparr>es_id = ms_id r, es_restaurant_name = ms_restaurant_name r,
                                  es_scanned_at = ms_scanned_at r\<rparr>))"

text \<open>The columns \<^verbatim>\<open>id, dish_count, created_at\<close> of a canonical menu.\<close>

record existing_canonical_menu =
  ec_id :: string
  ec_dish_count :: nat
  ec_created_at :: nat

definition checkForExistingCanonicalMenu ::
  "save_env \<Rightarrow> database \<Rightarrow> string option \<Rightarrow> existing_canonical_menu option" where
  "checkForExistingCanonicalMenu env db content_hash =
     (if hash_missing content_hash then None
      else case canonical_query_error env of
             Some error \<Rightarrow> (if code error = ''PGRST204'' then None else None)
           | None \<Rightarrow>
               (case filter (\<lambda>r. cm_content_hash r = content_hash) (canonical_menus db) of
                  [] \<Rightarrow> None
                | r # rs \<Rightarrow> Some \<lparr>ec_id = cm_id r, ec_dish_count = cm_dish_count r,
                                   ec_created_at = cm_created_at r\<rparr>))"

subsection \<open>Ensuring the user exists\<close>

text \<open>
  \<^verbatim>\<open>.single()\<close>: the row when the request yields exactly one, the error
  \<open>PGRST116\<close> and no data otherwise.
\<close>

definition single_row :: "'a list \<Rightarrow> 'a option \<times> db_error option" where
  "single_row rows =
     (case rows of
        [r] \<Rightarrow> (Some r, None)
      | _ \<Rightarrow> (None, Some \<lparr>code = ''PGRST116'',
                           message = js ''JSON object requested, multiple (or no) rows returned''\<rparr>))"

definition select_user :: "save_env \<Rightarrow> database \<Rightarrow> string \<Rightarrow> user_profile_row option \<times> db_error option" where
  "select_user env db userId =
     (case user_select_error env of
        Some e \<Rightarrow> (None, Some e)
      | None \<Rightarrow> single_row (filter (\<lambda>r. up_id r = userId) (user_profile db)))"

definition ensureUserExists :: "save_env \<Rightarrow> database \<Rightarrow> string \<Rightarrow> (js_error + bool) \<times> database" where
  "ensureUserExists env db userId =
     (let (userExists, userError) = select_user env db userId in
      if (case userError of None \<Rightarrow> False | Some e \<Rightarrow> code e \<noteq> ''PGRST116'')
      then (Inl (Error (js ''User check failed: '' @ message (the userError))), db)
      else if userExists = None
      then (case user_insert_error env of
              Some createError \<Rightarrow> (Inl (Error (js ''User creation failed: '' @ message createError)), db)
            | None \<Rightarrow>
                (Inr True,
                 db\<lparr>user_profile := user_profile db @
                      [\<lparr>up_id = userId, up_email = ''test@example.com'', up_created_at = now_user env\<rparr>]\<rparr>))
      else (Inr True, db))"

subsection \<open>Saving\<close>

datatype save_method = duplicate_image_hash | canonical_menu_reuse | new_canonical_menu

text \<open>
  The object \<^verbatim>\<open>saveToSupabase\<close> returns; a key the object does not have is \<open>None\<close>,
  and the key \<^verbatim>\<open>method\<close> is the field \<open>method_used\<close>.
  The canonical menu is read without its \<open>first_scan_id\<close>, so
  \<^verbatim>\<open>existingCanonicalMenuFirstScanId\<close> is never defined.
\<close>

record save_result =
  scanId :: string
  method_used :: save_method
  existingScan :: "bool option"
  canonicalId :: "string option"
  existingCanonicalMenuFirstScanId :: "string option"
  dishCount :: "nat option"
  newDishes :: "bool option"

definition scan_row :: "save_env \<Rightarrow> structured_result \<Rightarrow> string \<Rightarrow> string \<Rightarrow> menu_scan_row" where
  "scan_row env structuredResult userId canonical =
     \<lparr>ms_id = uuidv4 env,
      ms_user_id = userId,
      ms_menu_raw_text = ocr_text structuredResult,
      ms_scanned_at = now_scan env,
      ms_restaurant_name = restaurant_name (restaurant (structuredData structuredResult)),
      ms_location = location (restaurant (structuredData structuredResult)),
      ms_ocr_method = model_id (model structuredResult),
      ms_image_hash = imageHash structuredResult,
      ms_canonical_menu_id = canonical\<rparr>"

text \<open>
  \<^verbatim>\<open>structuredData.categories.reduce((sum, category) =>
    sum + (category.dishes ? category.dishes.length : 0), 0)\<close>
\<close>

definition count_dishes :: "structured_menu \<Rightarrow> nat" where
  "count_dishes structured =
     foldl (\<lambda>sum category. sum + (case dishes category of None \<Rightarrow> 0 | Some ds \<Rightarrow> length ds))
       0 (categories structured)"

text \<open>Every dish of every category that has dishes, with the name of its category.\<close>

definition all_dishes :: "structured_menu \<Rightarrow> (dish \<times> js_string) list" where
  "all_dishes structured =
     concat (map (\<lambda>category. case dishes category of
                                None \<Rightarrow> []
                              | Some ds \<Rightarrow> map (\<lambda>d. (d, category_name category)) ds)
                 (categories structured))"

definition dish_row :: "string \<Rightarrow> dish \<times> js_string \<Rightarrow> menu_dishes_row" where
  "dish_row canonical d =
     \<lparr>md_canonical_menu_id = canonical,
      md_dish_name = dish_name (fst d),
      md_description = (case description (fst d) of None \<Rightarrow> [] | Some s \<Rightarrow> s),
      md_price = price (fst d),
      md_category = snd d,
      md_tags = (case dietary_tags (fst d) of
                   None \<Rightarrow> None
                 | Some [] \<Rightarrow> None
                 | Some (t # ts) \<Rightarrow> Some (t # ts))\<rparr>"

definition BATCH_SIZE :: nat where
  "BATCH_SIZE = 10"

text \<open>
  The loop over the batches, from index \<open>i\<close>: the state is the count of inserted dishes,
  the errors met and the table. The answer of the store to a batch is asked by the
  number of the batch, \<^verbatim>\<open>Math.floor(i/BATCH_SIZE) + 1\<close>. An inserted batch returns
  one id per row.
\<close>

function insert_dish_batches ::
  "save_env \<Rightarrow> string \<Rightarrow> (dish \<times> js_string) list \<Rightarrow> nat \<Rightarrow>
   nat \<times> db_error list \<times> menu_dishes_row list \<Rightarrow> nat \<times> db_error list \<times> menu_dishes_row list" where
  "insert_dish_batches env canonical allDishes i (insertedDishCount, dishErrors, table) =
     (if i < length allDishes
      then (let batch = map (dish_row canonical) (take BATCH_SIZE (drop i allDishes)) in
            case dish_insert_error env (i div BATCH_SIZE + 1) of
              Some dishError \<Rightarrow>
                insert_dish_batches env canonical allDishes (i + BATCH_SIZE)
                  (insertedDishCount, dishErrors @ [dishError], table)
            | None \<Rightarrow>
                insert_dish_batches env canonical allDishes (i + BATCH_SIZE)
                  (insertedDishCount + length batch, dishErrors, table @ batch))
      else (insertedDishCount, dishErrors, table))"
  by pat_completeness auto
termination
  by (relation "measure (\<lambda>(env, canonical, allDishes, i, s). length allDishes - i)")
     (auto simp: BATCH_SIZE_def)

declare insert_dish_batches.simps [simp del]

text \<open>
  The batches of a list of dishes, counted from 0: their number, the rows of batch \<open>b\<close>,
  and, over the batches from \<open>start\<close> on, the rows of the batches the store accepted, the
  rows of those it refused, and the errors it returned.
\<close>

definition batch_count :: "'a list \<Rightarrow> nat" where
  "batch_count allDishes = (length allDishes + BATCH_SIZE - 1) div BATCH_SIZE"

definition batch_rows :: "string \<Rightarrow> (dish \<times> js_string) list \<Rightarrow> nat \<Rightarrow> menu_dishes_row list" where
  "batch_rows canonical allDishes b =
     map (dish_row canonical) (take BATCH_SIZE (drop (b * BATCH_SIZE) allDishes))"

definition committed_rows ::
  "save_env \<Rightarrow> string \<Rightarrow> (dish \<times> js_string) list \<Rightarrow> nat \<Rightarrow> menu_dishes_row list" where
  "committed_rows env canonical allDishes start =
     concat (map (\<lambda>b. if dish_insert_error env (b + 1) = None then batch_rows canonical allDishes b else [])
                 [start..<batch_count allDishes])"

definition rejected_rows ::
  "save_env \<Rightarrow> string \<Rightarrow> (dish \<times> js_string) list \<Rightarrow> nat \<Rightarrow> menu_dishes_row list" where
  "rejected_rows env canonical allDishes start =
     concat (map (\<lambda>b. if dish_insert_error env (b + 1) = None then [] else batch_rows canonical allDishes b)
                 [start..<batch_count allDishes])"

definition batch_errors :: "save_env \<Rightarrow> (dish \<times> js_string) list \<Rightarrow> nat \<Rightarrow> db_error list" where
  "batch_errors env allDishes start =
     concat (map (\<lambda>b. case dish_insert_error env (b + 1) of None \<Rightarrow> [] | Some e \<Rightarrow> [e])
                 [start..<batch_count allDishes])"

text \<open>Scenario A: the canonical menu exists; only a scan is inserted.\<close>

definition save_with_existing_canonical_menu ::
  "save_env \<Rightarrow> database \<Rightarrow> structured_result \<Rightarrow> string \<Rightarrow> existing_canonical_menu \<Rightarrow>
   (js_error + save_result) \<times> database" where
  "save_with_existing_canonical_menu env db structuredResult userId existingCanonicalMenu =
     (case scan_insert_error env of
        Some scanError \<Rightarrow> (Inl (Error (js ''Scan insert failed: '' @ message scanError)), db)
      | None \<Rightarrow>
          (Inr \<lparr>scanId = uuidv4 env,
                method_used = canonical_menu_reuse,
                existingScan = None,
                canonicalId = Some (ec_id existingCanonicalMenu),
                existingCanonicalMenuFirstScanId = None,
                dishCount = Some (ec_dish_count existingCanonicalMenu),
                newDishes = Some False\<rparr>,
           db\<lparr>menu_scan := menu_scan db @
                [scan_row env structuredResult userId (ec_id existingCanonicalMenu)]\<rparr>))"

text \<open>Scenario B: no canonical menu; the menu, the scan and the dishes are created.\<close>

definition save_with_new_canonical_menu ::
  "save_env \<Rightarrow> database \<Rightarrow> structured_result \<Rightarrow> string \<Rightarrow> (js_error + save_result) \<times> database" where
  "save_with_new_canonical_menu env db structuredResult userId =
     (let dish_count = count_dishes (structuredData structuredResult) in
      case canonical_insert_error env of
        Some canonicalError \<Rightarrow>
          (Inl (Error (js ''Canonical menu insert failed: '' @ message canonicalError)), db)
      | None \<Rightarrow>
          (let canonical = generated_canonical_id env;
               db2 = db\<lparr>canonical_menus := canonical_menus db @
                          [\<lparr>cm_id = canonical,
                            cm_content_hash = contentHash structuredResult,
                            cm_dish_count = dish_count,
                            cm_created_at = now_canonical env,
                            cm_first_scan_id = None\<rparr>]\<rparr>
           in case scan_insert_error env of
                Some scanError \<Rightarrow> (Inl (Error (js ''Scan insert failed: '' @ message scanError)), db2)
              | None \<Rightarrow>
                  (let db3 = db2\<lparr>menu_scan := menu_scan db2 @
                                   [scan_row env structuredResult userId canonical]\<rparr>;
                       db4 = (case first_scan_update_error env of
                                Some updateError \<Rightarrow> db3
                              | None \<Rightarrow>
                                  db3\<lparr>canonical_menus :=
                                        map (\<lambda>r. if cm_id r = canonical
                                                  then r\<lparr>cm_first_scan_id := Some (uuidv4 env)\<rparr>
                                                  else r)
                                            (canonical_menus db3)\<rparr>);
                       (insertedDishCount, dishErrors, table) =
                          insert_dish_batches env canonical
                            (all_dishes (structuredData structuredResult)) 0
                            (0, [], menu_dishes db4)
                   in (Inr \<lparr>scanId = uuidv4 env,
                            method_used = new_canonical_menu,
                            existingScan = None,
                            canonicalId = Some canonical,
                            existingCanonicalMenuFirstScanId = None,
                            dishCount = Some insertedDishCount,
                            newDishes = Some True\<rparr>,
                       db4\<lparr>menu_dishes := table\<rparr>))))"

definition saveToSupabase ::
  "save_env \<Rightarrow> database \<Rightarrow> structured_result \<Rightarrow> string \<Rightarrow> (js_error + save_result) \<times> database" where
  "saveToSupabase env db structuredResult userId =
     (case checkForExistingUserScan env db userId (imageHash structuredResult) of
        Some existingScan' \<Rightarrow>
          (Inr \<lparr>scanId = es_id existingScan',
                method_used = duplicate_image_hash,
                existingScan = Some True,
                canonicalId = None,
                existingCanonicalMenuFirstScanId = None,
                dishCount = None,
                newDishes = None\<rparr>,
           db)
      | None \<Rightarrow>
          (case ensureUserExists env db userId of
             (Inl err, db1) \<Rightarrow> (Inl err, db1)
           | (Inr ok, db1) \<Rightarrow>
               (case checkForExistingCanonicalMenu env db1 (contentHash structuredResult) of
                  Some existingCanonicalMenu \<Rightarrow>
                    save_with_existing_canonical_menu env db1 structuredResult userId existingCanonicalMenu
                | None \<Rightarrow> save_with_new_canonical_menu env db1 structuredResult userId)))"

subsection \<open>Example calls\<close>

definition house_salad :: dish where
  "house_salad = \<lparr>dish_name = js ''House Salad'', description = Some (js ''mixed leaves''),
                   price = Some 12, dietary_tags = Some [js ''v'']\<rparr>"

definition fries :: dish where
  "fries = \<lparr>dish_name = js ''Fries'', description = None, price = None, dietary_tags = Some []\<rparr>"

definition small_menu :: structured_menu where
  "small_menu =
     \<lparr>restaurant = \<lparr>restaurant_name = js ''Soho House Toronto'', location = js ''Toronto, Canada''\<rparr>,
      categories = [\<lparr>category_name = js ''STARTERS'', dishes = Some [house_salad, fries]\<rparr>,
                    \<lparr>category_name = js ''DRINKS'', dishes = None\<rparr>]\<rparr>"

definition scanned :: structured_result where
  "scanned =
     \<lparr>success = True, ocr_text = js ''STARTERS House Salad 12 Fries'',
      model = \<lparr>model_id = ''openai/gpt-4o-mini'', model_name = ''GPT-4o Mini''\<rparr>,
      metadata = \<lparr>responseTime = ''1.20'', extractedAt = ''2025-01-01T00:00:00.000Z'', textLength = 29\<rparr>,
      structuredData = small_menu,
      imageHash = Some ''ab12'',
      contentHash = Some ''cd34''\<rparr>"

definition first_scan_row :: menu_scan_row where
  "first_scan_row =
     \<lparr>ms_id = ''scan-1'', ms_user_id = ''user-1'', ms_menu_raw_text = js ''STARTERS House Salad 12 Fries'',
      ms_scanned_at = 50, ms_restaurant_name = js ''Soho House Toronto'',
      ms_location = js ''Toronto, Canada'', ms_ocr_method = ''openai/gpt-4o-mini'',
      ms_image_hash = Some ''ab12'', ms_canonical_menu_id = ''canon-1''\<rparr>"

text \<open>The tables after \<open>user-1\<close> has scanned the image \<open>ab12\<close> of the menu \<open>cd34\<close> once.\<close>

definition db_after_first_scan :: database where
  "db_after_first_scan =
     \<lparr>user_profile = [\<lparr>up_id = ''user-1'', up_email = ''test@example.com'', up_created_at = 48\<rparr>],
      canonical_menus = [\<lparr>cm_id = ''canon-1'', cm_content_hash = Some ''cd34'', cm_dish_count = 2,
                           cm_created_at = 49, cm_first_scan_id = Some ''scan-1''\<rparr>],
      menu_scan = [first_scan_row],
      menu_dishes = [dish_row ''canon-1'' (house_salad, js ''STARTERS''),
                     dish_row ''canon-1'' (fries, js ''STARTERS'')]\<rparr>"

definition empty_db :: database where
  "empty_db = \<lparr>user_profile = [], canonical_menus = [], menu_scan = [], menu_dishes = []\<rparr>"

text \<open>A call that the store serves without an error.\<close>

definition no_errors :: save_env where
  "no_errors =
     \<lparr>uuidv4 = ''scan-2'', generated_canonical_id = ''canon-2'',
      now_user = 100, now_canonical = 101, now_scan = 102,
      user_scan_query_error = None, user_select_error = None, user_insert_error = None,
      canonical_query_error = None, canonical_insert_error = None, scan_insert_error = None,
      first_scan_update_error = None, dish_insert_error = (\<lambda>batch. None)\<rparr>"

definition statement_timeout :: db_error where
  "statement_timeout = \<lparr>code = ''57014'', message = js ''canceling statement due to statement timeout''\<rparr>"

definition unique_violation :: db_error where
  "unique_violation = \<lparr>code = ''23505'', message = js ''duplicate key value violates unique constraint''\<rparr>"

definition second_scan_row :: "string \<Rightarrow> string \<Rightarrow> menu_scan_row" where
  "second_scan_row userId canonical =
     \<lparr>ms_id = ''scan-2'', ms_user_id = userId, ms_menu_raw_text = js ''STARTERS House Salad 12 Fries'',
      ms_scanned_at = 102, ms_restaurant_name = js ''Soho House Toronto'',
      ms_location = js ''Toronto, Canada'', ms_ocr_method = ''openai/gpt-4o-mini'',
      ms_image_hash = Some ''ab12'', ms_canonical_menu_id = canonical\<rparr>"

text \<open>A menu of 25 dishes in three categories: three batches, the last of five dishes.\<close>

definition large_menu :: structured_menu where
  "large_menu =
     \<lparr>restaurant = \<lparr>restaurant_name = js ''Soho House Toronto'', location = js ''Toronto, Canada''\<rparr>,
      categories = [\<lparr>category_name = js ''MAINS'', dishes = Some (replicate 12 house_salad)\<rparr>,
                    \<lparr>category_name = js ''SIDES'', dishes = Some (replicate 8 fries)\<rparr>,
                    \<lparr>category_name = js ''DESSERTS'', dishes = Some (replicate 5 house_salad)\<rparr>]\<rparr>"

definition scanned_large :: structured_result where
  "scanned_large = scanned\<lparr>structuredData := large_menu, imageHash := Some ''ef56'', contentHash := Some ''0a78''\<rparr>"

text \<open>The store refuses the second batch of dishes and accepts every other request.\<close>

definition second_batch_fails :: save_env where
  "second_batch_fails =
     no_errors\<lparr>dish_insert_error := (\<lambda>batch. if batch = 2 then Some statement_timeout else None)\<rparr>"

subsection \<open>Example menus for the content hash\<close>








section \<open>Properties of the fallback chain\<close>

lemma ocr_loop_failed_prefix:
  "\<forall>p\<in>set pre. attempt_fails (fetch_completion env (model_id p) img) \<Longrightarrow>
   snd (ocr_loop env img (pre @ rest)) = snd (ocr_loop env img rest) \<and>
   invoked (fst (ocr_loop env img (pre @ rest))) = pre @ invoked (fst (ocr_loop env img rest)) \<and>
   logged_failures (fst (ocr_loop env img (pre @ rest))) =
     map (\<lambda>p. logged_kind (fetch_completion env (model_id p) img)) pre
     @ logged_failures (fst (ocr_loop env img rest))"
proof (induction pre)
  case Nil
  then show ?case by simp
next
  case (Cons p pre)
  then show ?case
    by (cases "fetch_completion env (model_id p) img")
       (auto simp: next_model_def split: option.splits json.splits)
qed

text \<open>
  What holds of the first success: for every chain \<open>pre @ m # post\<close>, when the API key is
  set, every provider of \<open>pre\<close> fails, provider \<open>m\<close> returns a string \<open>t\<close> of at least
  20 code units after trimming, and the reference file of \<open>t\<close> is written, the function
  returns \<open>t\<close> tagged with \<open>m\<close> and the providers it called are exactly \<open>pre @ [m]\<close>.
\<close>

lemma first_success_wins_if_saved:
  assumes "OPENROUTER_API_KEY env = Some k" and "k \<noteq> []"
    and "\<forall>p\<in>set pre. attempt_fails (fetch_completion env (model_id p) img)"
    and "fetch_completion env (model_id m) img = Content (Some (JStr t))"
    and "20 \<le> length (trim t)"
    and "save_text_error env (model_id m) t = None"
  shows "snd (runOcrWithFallbackChain (pre @ m # post) env img) =
           Inr \<lparr>success = True, ocr_text = t, model = m,
                metadata = \<lparr>responseTime = responseTime_of env (model_id m),
                            extractedAt = extractedAt_of env (model_id m),
                            textLength = length t\<rparr>\<rparr>
         \<and> invoked (fst (runOcrWithFallbackChain (pre @ m # post) env img)) = pre @ [m]"
proof -
  have t: "t \<noteq> []" using assms(5) by (auto simp: trim_def)
  have here: "ocr_loop env img (m # post) =
      ([Attempting m, Extracted m],
       Inr \<lparr>success = True, ocr_text = t, model = m,
            metadata = \<lparr>responseTime = responseTime_of env (model_id m),
                        extractedAt = extractedAt_of env (model_id m),
                        textLength = length t\<rparr>\<rparr>)"
    using assms(4,5,6) t by simp
  have run: "runOcrWithFallbackChain (pre @ m # post) env img = ocr_loop env img (pre @ m # post)"
    using assms(1,2) by (simp add: runOcrWithFallbackChain_def)
  show ?thesis
    using ocr_loop_failed_prefix [OF assms(3), of "m # post"] unfolding run here by simp
qed

lemma soup_text_trimmed: "length (trim soup_text) = 20"
  by (simp add: soup_text_def trim_def js_def is_ws_def)

lemma salad_text_trimmed: "length (trim salad_text) = 30"
  by (simp add: salad_text_def trim_def js_def is_ws_def)

text \<open>
  C1. The code breaks the claim where saving the reference file fails. In the run below
  every model of \<open>OCR_MODEL_CHAIN\<close> returns a text of at least 20 code units after
  trimming, the first model the text \<open>soup_text\<close>, and the reference file of the first
  model cannot be written. The function logs the success of the first model, then an
  exception, calls the second model, and returns the text of the second model tagged with
  the second model: the first success does not win.
\<close>

theorem valid_text_is_discarded_when_saving_fails:
  "fetch_completion env_first_cannot_be_saved (model_id (OCR_MODEL_CHAIN ! 0)) ''img'' =
     Content (Some (JStr soup_text))
   \<and> length (trim soup_text) = 20
   \<and> snd (runOcrWithFallbackChain OCR_MODEL_CHAIN env_first_cannot_be_saved ''img'') =
       Inr \<lparr>success = True, ocr_text = salad_text, model = OCR_MODEL_CHAIN ! 1,
            metadata = \<lparr>responseTime = ''1.20'', extractedAt = ''2025-01-01T00:00:00.000Z'',
                        textLength = 30\<rparr>\<rparr>
   \<and> fst (runOcrWithFallbackChain OCR_MODEL_CHAIN env_first_cannot_be_saved ''img'') =
       [Attempting (OCR_MODEL_CHAIN ! 0), Extracted (OCR_MODEL_CHAIN ! 0),
        ExceptionDuring (OCR_MODEL_CHAIN ! 0) (js ''EACCES: permission denied''),
        Attempting (OCR_MODEL_CHAIN ! 1), Extracted (OCR_MODEL_CHAIN ! 1)]
   \<and> invoked (fst (runOcrWithFallbackChain OCR_MODEL_CHAIN env_first_cannot_be_saved ''img'')) =
       [OCR_MODEL_CHAIN ! 0, OCR_MODEL_CHAIN ! 1]"
proof -
  have soup: "\<not> insufficient_text (Some (JStr soup_text))"
    using soup_text_trimmed by (auto simp: soup_text_def js_def)
  have salad: "\<not> insufficient_text (Some (JStr salad_text))"
    using salad_text_trimmed by (auto simp: salad_text_def js_def)
  have len: "length salad_text = 30"
    by (simp add: salad_text_def js_def)
  have first: "fetch_completion env_first_cannot_be_saved (model_id (OCR_MODEL_CHAIN ! 0)) ''img'' =
      Content (Some (JStr soup_text))"
    by (simp add: OCR_MODEL_CHAIN_def env_first_cannot_be_saved_def)
  have run: "runOcrWithFallbackChain OCR_MODEL_CHAIN env_first_cannot_be_saved ''img'' =
      ([Attempting (OCR_MODEL_CHAIN ! 0), Extracted (OCR_MODEL_CHAIN ! 0),
        ExceptionDuring (OCR_MODEL_CHAIN ! 0) (js ''EACCES: permission denied''),
        Attempting (OCR_MODEL_CHAIN ! 1), Extracted (OCR_MODEL_CHAIN ! 1)],
       Inr \<lparr>success = True, ocr_text = salad_text, model = OCR_MODEL_CHAIN ! 1,
            metadata = \<lparr>responseTime = ''1.20'', extractedAt = ''2025-01-01T00:00:00.000Z'',
                        textLength = 30\<rparr>\<rparr>)"
    using soup salad
    by (simp add: runOcrWithFallbackChain_def OCR_MODEL_CHAIN_def env_first_cannot_be_saved_def
        next_model_def len)
  show ?thesis
    unfolding run using first soup_text_trimmed by simp
qed




text \<open>The same chain, event by event: six attempts, each logged as an exception.\<close>

lemma number_content_is_logged_as_exception:
  "fst (ocr_loop env_all_return_a_number ''img'' [m]) =
     [Attempting m, ExceptionDuring m substring_type_error, AllFailed]"
  by (simp add: env_all_return_a_number_def next_model_def)

section \<open>Properties of the duplicate checks and of saving\<close>

lemma most_recent_is_latest:
  "rows \<noteq> [] \<Longrightarrow>
   \<exists>r\<in>set rows. most_recent rows = Some r \<and> (\<forall>r'\<in>set rows. ms_scanned_at r' \<le> ms_scanned_at r)"
proof (induction rows)
  case Nil
  then show ?case by simp
next
  case (Cons a rows)
  show ?case
  proof (cases "rows = []")
    case True
    then show ?thesis by simp
  next
    case False
    with Cons.IH obtain b where b: "b \<in> set rows" "most_recent rows = Some b"
      "\<forall>r'\<in>set rows. ms_scanned_at r' \<le> ms_scanned_at b"
      by blast
    show ?thesis
    proof (cases "ms_scanned_at a < ms_scanned_at b")
      case True
      with b show ?thesis by (intro bexI [of _ b]) auto
    next
      case False
      with b show ?thesis by (intro bexI [of _ a]) (auto simp: not_less intro: order_trans)
    qed
  qed
qed

lemma ensureUserExists_frame:
  "ensureUserExists env db userId = (r, db1) \<Longrightarrow>
   canonical_menus db1 = canonical_menus db \<and> menu_scan db1 = menu_scan db \<and> menu_dishes db1 = menu_dishes db"
  by (auto simp: ensureUserExists_def Let_def split: prod.splits if_splits option.splits)

lemma canonical_menu_found:
  "checkForExistingCanonicalMenu env db h = Some cm \<Longrightarrow>
   \<exists>r\<in>set (canonical_menus db). cm_id r = ec_id cm \<and> cm_content_hash r = h \<and> cm_dish_count r = ec_dish_count cm"
proof -
  assume a: "checkForExistingCanonicalMenu env db h = Some cm"
  then obtain r rs where f: "filter (\<lambda>r. cm_content_hash r = h) (canonical_menus db) = r # rs"
    and cm: "cm = \<lparr>ec_id = cm_id r, ec_dish_count = cm_dish_count r, ec_created_at = cm_created_at r\<rparr>"
    by (auto simp: checkForExistingCanonicalMenu_def split: if_splits option.splits list.splits)
  from f have "r \<in> set (filter (\<lambda>r. cm_content_hash r = h) (canonical_menus db))"
    by simp
  then show ?thesis using cm by auto
qed

text \<open>
  C2, as stated, fails: \<open>user-1\<close> has a scan of the image \<open>ab12\<close>, the query for it
  returns an error, and the call inserts a second scan of that image for that user and
  returns \<open>canonical_menu_reuse\<close>.
\<close>

theorem duplicate_missed_when_query_fails:
  "first_scan_row \<in> set (menu_scan db_after_first_scan)
   \<and> ms_user_id first_scan_row = ''user-1''
   \<and> ms_image_hash first_scan_row = imageHash scanned
   \<and> saveToSupabase (no_errors\<lparr>user_scan_query_error := Some statement_timeout\<rparr>)
        db_after_first_scan scanned ''user-1'' =
       (Inr \<lparr>scanId = ''scan-2'', method_used = canonical_menu_reuse, existingScan = None,
             canonicalId = Some ''canon-1'', existingCanonicalMenuFirstScanId = None,
             dishCount = Some 2, newDishes = Some False\<rparr>,
        db_after_first_scan\<lparr>menu_scan := [first_scan_row, second_scan_row ''user-1'' ''canon-1'']\<rparr>)"
  by (simp add: saveToSupabase_def checkForExistingUserScan_def ensureUserExists_def select_user_def
      single_row_def checkForExistingCanonicalMenu_def save_with_existing_canonical_menu_def
      scan_row_def db_after_first_scan_def scanned_def no_errors_def first_scan_row_def
      second_scan_row_def small_menu_def)

text \<open>
  C2, amended. For every call where the image hash is a non-empty string, the query for
  the user's scans of that image returns without an error, and a scan with that user id
  and image hash exists, \<open>saveToSupabase\<close> returns the id of the most recent such scan
  with the method \<open>duplicate_image_hash\<close> and leaves all four tables as they were.
\<close>

theorem duplicate_scan_writes_nothing:
  assumes "imageHash sr = Some h" and "h \<noteq> []"
    and "user_scan_query_error env = None"
    and "prior \<in> set (menu_scan db)" and "ms_user_id prior = userId" and "ms_image_hash prior = Some h"
  shows "\<exists>r\<in>set (menu_scan db).
           ms_user_id r = userId \<and> ms_image_hash r = Some h
           \<and> (\<forall>r'\<in>set (menu_scan db).
                 ms_user_id r' = userId \<and> ms_image_hash r' = Some h \<longrightarrow> ms_scanned_at r' \<le> ms_scanned_at r)
           \<and> saveToSupabase env db sr userId =
               (Inr \<lparr>scanId = ms_id r, method_used = duplicate_image_hash, existingScan = Some True,
                     canonicalId = None, existingCanonicalMenuFirstScanId = None,
                     dishCount = None, newDishes = None\<rparr>, db)"
proof -
  let ?rows = "filter (\<lambda>r. ms_user_id r = userId \<and> ms_image_hash r = Some h) (menu_scan db)"
  have "prior \<in> set ?rows" using assms(4-6) by simp
  then have "?rows \<noteq> []" by (metis empty_iff empty_set)
  from most_recent_is_latest [OF this]
  obtain r where r: "r \<in> set ?rows" "most_recent ?rows = Some r"
    "\<forall>r'\<in>set ?rows. ms_scanned_at r' \<le> ms_scanned_at r"
    by blast
  have "checkForExistingUserScan env db userId (imageHash sr) =
      Some \<lparr>es_id = ms_id r, es_restaurant_name = ms_restaurant_name r, es_scanned_at = ms_scanned_at r\<rparr>"
    using assms(1-3) r(2) by (simp add: checkForExistingUserScan_def)
  then have "saveToSupabase env db sr userId =
      (Inr \<lparr>scanId = ms_id r, method_used = duplicate_image_hash, existingScan = Some True,
            canonicalId = None, existingCanonicalMenuFirstScanId = None,
            dishCount = None, newDishes = None\<rparr>, db)"
    by (simp add: saveToSupabase_def)
  with r(1,3) show ?thesis by (intro bexI [of _ r]) auto
qed

theorem duplicate_scan_writes_nothing_witness:
  "imageHash scanned = Some ''ab12''
   \<and> user_scan_query_error no_errors = None
   \<and> menu_scan db_after_first_scan = [first_scan_row]
   \<and> ms_user_id first_scan_row = ''user-1''
   \<and> ms_image_hash first_scan_row = Some ''ab12''
   \<and> saveToSupabase no_errors db_after_first_scan scanned ''user-1'' =
       (Inr \<lparr>scanId = ''scan-1'', method_used = duplicate_image_hash, existingScan = Some True,
             canonicalId = None, existingCanonicalMenuFirstScanId = None,
             dishCount = None, newDishes = None\<rparr>, db_after_first_scan)"
proof -
  have h: "imageHash scanned = Some ''ab12''" by (simp add: scanned_def)
  have ne: "''ab12'' \<noteq> []" by simp
  have q: "user_scan_query_error no_errors = None" by (simp add: no_errors_def)
  have rows: "menu_scan db_after_first_scan = [first_scan_row]" by (simp add: db_after_first_scan_def)
  have mem: "first_scan_row \<in> set (menu_scan db_after_first_scan)" by (simp add: rows)
  have u: "ms_user_id first_scan_row = ''user-1''" and i: "ms_image_hash first_scan_row = Some ''ab12''"
    and s: "ms_id first_scan_row = ''scan-1''"
    by (simp_all add: first_scan_row_def)
  from duplicate_scan_writes_nothing [OF h ne q mem u i]
  have "saveToSupabase no_errors db_after_first_scan scanned ''user-1'' =
       (Inr \<lparr>scanId = ''scan-1'', method_used = duplicate_image_hash, existingScan = Some True,
             canonicalId = None, existingCanonicalMenuFirstScanId = None,
             dishCount = None, newDishes = None\<rparr>, db_after_first_scan)"
    by (simp add: rows s)
  with h q rows u i show ?thesis by simp
qed

text \<open>
  C4. For every call classified as a canonical match (no scan of the image by the user is
  found, the user exists or is created, and the lookup by content hash returns a canonical
  menu) whose scan insert the store accepts, \<open>saveToSupabase\<close> appends exactly one row
  to \<open>menu_scan\<close>, linked to the id of that existing canonical menu, which has the
  content hash of the call; it leaves \<open>menu_dishes\<close> and \<open>canonical_menus\<close> as they
  were; and it returns the method \<open>canonical_menu_reuse\<close> with \<open>newDishes\<close> false.
\<close>

theorem canonical_match_inserts_one_scan:
  assumes "checkForExistingUserScan env db userId (imageHash sr) = None"
    and "ensureUserExists env db userId = (Inr ok, db1)"
    and "checkForExistingCanonicalMenu env db1 (contentHash sr) = Some cm"
    and "scan_insert_error env = None"
  shows "fst (saveToSupabase env db sr userId) =
           Inr \<lparr>scanId = uuidv4 env, method_used = canonical_menu_reuse, existingScan = None,
                canonicalId = Some (ec_id cm), existingCanonicalMenuFirstScanId = None,
                dishCount = Some (ec_dish_count cm), newDishes = Some False\<rparr>
         \<and> menu_scan (snd (saveToSupabase env db sr userId)) =
             menu_scan db @ [scan_row env sr userId (ec_id cm)]
         \<and> ms_canonical_menu_id (scan_row env sr userId (ec_id cm)) = ec_id cm
         \<and> menu_dishes (snd (saveToSupabase env db sr userId)) = menu_dishes db
         \<and> canonical_menus (snd (saveToSupabase env db sr userId)) = canonical_menus db
         \<and> (\<exists>r\<in>set (canonical_menus db). cm_id r = ec_id cm \<and> cm_content_hash r = contentHash sr)"
proof -
  note frame = ensureUserExists_frame [OF assms(2)]
  have run: "saveToSupabase env db sr userId =
      (Inr \<lparr>scanId = uuidv4 env, method_used = canonical_menu_reuse, existingScan = None,
            canonicalId = Some (ec_id cm), existingCanonicalMenuFirstScanId = None,
            dishCount = Some (ec_dish_count cm), newDishes = Some False\<rparr>,
       db1\<lparr>menu_scan := menu_scan db1 @ [scan_row env sr userId (ec_id cm)]\<rparr>)"
    using assms by (simp add: saveToSupabase_def save_with_existing_canonical_menu_def)
  have found: "\<exists>r\<in>set (canonical_menus db). cm_id r = ec_id cm \<and> cm_content_hash r = contentHash sr"
    using canonical_menu_found [OF assms(3)] frame by auto
  show ?thesis
    unfolding run using frame found by (simp add: scan_row_def)
qed

theorem canonical_match_inserts_one_scan_witness:
  "checkForExistingUserScan no_errors db_after_first_scan ''user-2'' (imageHash scanned) = None
   \<and> fst (ensureUserExists no_errors db_after_first_scan ''user-2'') = Inr True
   \<and> checkForExistingCanonicalMenu no_errors (snd (ensureUserExists no_errors db_after_first_scan ''user-2''))
        (contentHash scanned) = Some \<lparr>ec_id = ''canon-1'', ec_dish_count = 2, ec_created_at = 49\<rparr>
   \<and> scan_insert_error no_errors = None
   \<and> fst (saveToSupabase no_errors db_after_first_scan scanned ''user-2'') =
       Inr \<lparr>scanId = ''scan-2'', method_used = canonical_menu_reuse, existingScan = None,
            canonicalId = Some ''canon-1'', existingCanonicalMenuFirstScanId = None,
            dishCount = Some 2, newDishes = Some False\<rparr>
   \<and> menu_scan (snd (saveToSupabase no_errors db_after_first_scan scanned ''user-2'')) =
       [first_scan_row, second_scan_row ''user-2'' ''canon-1'']
   \<and> menu_dishes (snd (saveToSupabase no_errors db_after_first_scan scanned ''user-2'')) =
       menu_dishes db_after_first_scan
   \<and> canonical_menus (snd (saveToSupabase no_errors db_after_first_scan scanned ''user-2'')) =
       canonical_menus db_after_first_scan"
proof -
  have a: "checkForExistingUserScan no_errors db_after_first_scan ''user-2'' (imageHash scanned) = None"
    by (simp add: checkForExistingUserScan_def no_errors_def db_after_first_scan_def scanned_def
        first_scan_row_def)
  have b: "ensureUserExists no_errors db_after_first_scan ''user-2'' =
      (Inr True, db_after_first_scan\<lparr>user_profile := user_profile db_after_first_scan @
         [\<lparr>up_id = ''user-2'', up_email = ''test@example.com'', up_created_at = 100\<rparr>]\<rparr>)"
    by (simp add: ensureUserExists_def select_user_def single_row_def no_errors_def db_after_first_scan_def)
  have c: "checkForExistingCanonicalMenu no_errors
      (db_after_first_scan\<lparr>user_profile := user_profile db_after_first_scan @
         [\<lparr>up_id = ''user-2'', up_email = ''test@example.com'', up_created_at = 100\<rparr>]\<rparr>)
      (contentHash scanned) = Some \<lparr>ec_id = ''canon-1'', ec_dish_count = 2, ec_created_at = 49\<rparr>"
    by (simp add: checkForExistingCanonicalMenu_def no_errors_def db_after_first_scan_def scanned_def)
  have d: "scan_insert_error no_errors = None"
    by (simp add: no_errors_def)
  have row: "scan_row no_errors scanned ''user-2'' ''canon-1'' = second_scan_row ''user-2'' ''canon-1''"
    by (simp add: scan_row_def second_scan_row_def no_errors_def scanned_def small_menu_def)
  have rows: "menu_scan db_after_first_scan = [first_scan_row]"
    by (simp add: db_after_first_scan_def)
  have id: "uuidv4 no_errors = ''scan-2''"
    by (simp add: no_errors_def)
  from canonical_match_inserts_one_scan [OF a b c d]
  show ?thesis
    using a c d by (simp add: b row rows id)
qed

text \<open>
  C9, as stated, fails on the duplicate path: the object returned there has the keys
  \<open>scanId\<close>, \<open>method\<close> and \<open>existingScan\<close> only.
\<close>

theorem duplicate_result_has_no_canonical_id:
  "fst (saveToSupabase no_errors db_after_first_scan scanned ''user-1'') =
     Inr \<lparr>scanId = ''scan-1'', method_used = duplicate_image_hash, existingScan = Some True,
          canonicalId = None, existingCanonicalMenuFirstScanId = None,
          dishCount = None, newDishes = None\<rparr>"
  by (simp add: saveToSupabase_def checkForExistingUserScan_def no_errors_def db_after_first_scan_def
      scanned_def first_scan_row_def)

text \<open>
  C9, amended. For every call that returns a result: on the methods
  \<open>canonical_menu_reuse\<close> and \<open>new_canonical_menu\<close> the result has a canonical id, a
  dish count and the flag \<open>newDishes\<close> (false on reuse, true on a new menu) and no key
  \<open>existingScan\<close>; on the method \<open>duplicate_image_hash\<close> it has \<open>existingScan\<close> true
  and none of the three.
\<close>

theorem result_shape_by_method:
  assumes "saveToSupabase env db sr userId = (Inr r, db')"
  shows "(method_used r = duplicate_image_hash \<longrightarrow>
            existingScan r = Some True \<and> canonicalId r = None \<and> dishCount r = None \<and> newDishes r = None
            \<and> existingCanonicalMenuFirstScanId r = None)
       \<and> (method_used r = canonical_menu_reuse \<longrightarrow>
            existingScan r = None \<and> canonicalId r \<noteq> None \<and> dishCount r \<noteq> None \<and> newDishes r = Some False)
       \<and> (method_used r = new_canonical_menu \<longrightarrow>
            existingScan r = None \<and> canonicalId r \<noteq> None \<and> dishCount r \<noteq> None \<and> newDishes r = Some True)"
proof (cases "checkForExistingUserScan env db userId (imageHash sr)")
  case (Some e)
  with assms show ?thesis by (auto simp: saveToSupabase_def)
next
  case None
  obtain u db1 where u: "ensureUserExists env db userId = (u, db1)"
    by (cases "ensureUserExists env db userId")
  show ?thesis
  proof (cases u)
    case (Inl err)
    with assms None u show ?thesis by (simp add: saveToSupabase_def)
  next
    case (Inr ok)
    show ?thesis
    proof (cases "checkForExistingCanonicalMenu env db1 (contentHash sr)")
      case (Some cm)
      with assms None u Inr show ?thesis
        by (auto simp: saveToSupabase_def save_with_existing_canonical_menu_def split: option.splits)
    next
      case none: None
      with assms None u Inr show ?thesis
        by (auto simp: saveToSupabase_def save_with_new_canonical_menu_def Let_def
            split: option.splits prod.splits)
    qed
  qed
qed

theorem result_shape_by_method_witness:
  "saveToSupabase no_errors db_after_first_scan scanned ''user-2'' =
     (Inr \<lparr>scanId = ''scan-2'', method_used = canonical_menu_reuse, existingScan = None,
           canonicalId = Some ''canon-1'', existingCanonicalMenuFirstScanId = None,
           dishCount = Some 2, newDishes = Some False\<rparr>,
      db_after_first_scan\<lparr>user_profile := user_profile db_after_first_scan @
           [\<lparr>up_id = ''user-2'', up_email = ''test@example.com'', up_created_at = 100\<rparr>],
         menu_scan := [first_scan_row, second_scan_row ''user-2'' ''canon-1'']\<rparr>)
   \<and> canonicalId \<lparr>scanId = ''scan-2'', method_used = canonical_menu_reuse, existingScan = None,
           canonicalId = Some ''canon-1'', existingCanonicalMenuFirstScanId = None,
           dishCount = Some 2, newDishes = Some False\<rparr> \<noteq> None"
proof -
  have run: "saveToSupabase no_errors db_after_first_scan scanned ''user-2'' =
     (Inr \<lparr>scanId = ''scan-2'', method_used = canonical_menu_reuse, existingScan = None,
           canonicalId = Some ''canon-1'', existingCanonicalMenuFirstScanId = None,
           dishCount = Some 2, newDishes = Some False\<rparr>,
      db_after_first_scan\<lparr>user_profile := user_profile db_after_first_scan @
           [\<lparr>up_id = ''user-2'', up_email = ''test@example.com'', up_created_at = 100\<rparr>],
         menu_scan := [first_scan_row, second_scan_row ''user-2'' ''canon-1'']\<rparr>)"
    by (simp add: saveToSupabase_def checkForExistingUserScan_def ensureUserExists_def select_user_def
      single_row_def checkForExistingCanonicalMenu_def save_with_existing_canonical_menu_def
      scan_row_def db_after_first_scan_def scanned_def no_errors_def first_scan_row_def
      second_scan_row_def small_menu_def)
  from result_shape_by_method [OF run] show ?thesis
    using run by simp
qed

subsection \<open>The batch loop\<close>

lemma batch_count_le: "k * BATCH_SIZE < length xs \<longleftrightarrow> k < batch_count xs"
  by (auto simp: batch_count_def BATCH_SIZE_def)

lemma insert_dish_batches_closed:
  "insert_dish_batches env c all (k * BATCH_SIZE) (n, errs, table) =
     (n + length (committed_rows env c all k), errs @ batch_errors env all k, table @ committed_rows env c all k)"
proof (induction "batch_count all - k" arbitrary: k n errs table)
  case 0
  then have "\<not> k * BATCH_SIZE < length all" by (simp add: batch_count_le)
  moreover have e: "[k..<batch_count all] = []" using 0 by simp
  have "committed_rows env c all k = []" "batch_errors env all k = []"
    by (simp_all only: committed_rows_def batch_errors_def e list.map concat.simps)
  ultimately show ?case
    by (subst insert_dish_batches.simps) simp
next
  case (Suc d)
  then have lt: "k < batch_count all" by simp
  then have i: "k * BATCH_SIZE < length all" by (simp add: batch_count_le)
  have d: "d = batch_count all - Suc k" using Suc by simp
  have step: "k * BATCH_SIZE + BATCH_SIZE = Suc k * BATCH_SIZE" by simp
  have upt: "[k..<batch_count all] = k # [Suc k..<batch_count all]"
    using lt by (simp add: upt_conv_Cons)
  have dv: "k * BATCH_SIZE div BATCH_SIZE = k" by (simp add: BATCH_SIZE_def)
  have unfold: "insert_dish_batches env c all (k * BATCH_SIZE) (n, errs, table) =
      (case dish_insert_error env (k + 1) of
         Some e \<Rightarrow> insert_dish_batches env c all (Suc k * BATCH_SIZE) (n, errs @ [e], table)
       | None \<Rightarrow> insert_dish_batches env c all (Suc k * BATCH_SIZE)
                   (n + length (batch_rows c all k), errs, table @ batch_rows c all k))"
    by (subst insert_dish_batches.simps) (simp only: i if_True Let_def step dv batch_rows_def)
  have rows: "committed_rows env c all k =
      (if dish_insert_error env (k + 1) = None then batch_rows c all k else [])
      @ committed_rows env c all (Suc k)"
    by (simp only: committed_rows_def upt list.map concat.simps)
  have errors: "batch_errors env all k =
      (case dish_insert_error env (k + 1) of None \<Rightarrow> [] | Some e \<Rightarrow> [e])
      @ batch_errors env all (Suc k)"
    by (simp only: batch_errors_def upt list.map concat.simps)
  show ?case
  proof (cases "dish_insert_error env (k + 1)")
    case None
    then show ?thesis
      unfolding unfold rows errors by (simp add: Suc.hyps(1) [OF d] del: mult_Suc)
  next
    case (Some e)
    then show ?thesis
      unfolding unfold rows errors by (simp add: Suc.hyps(1) [OF d] del: mult_Suc)
  qed
qed

lemma count_dishes_all_dishes: "count_dishes m = length (all_dishes m)"
proof -
  have aux: "foldl (\<lambda>sum category. sum + (case dishes category of None \<Rightarrow> 0 | Some ds \<Rightarrow> length ds)) n cs
      = n + length (concat (map (\<lambda>category. case dishes category of
                                None \<Rightarrow> []
                              | Some ds \<Rightarrow> map (\<lambda>d. (d, category_name category)) ds) cs))" for n cs
    by (induction cs arbitrary: n) (auto split: option.splits)
  show ?thesis
    unfolding count_dishes_def all_dishes_def using aux [of 0 "categories m"] by simp
qed

lemma batch_rows_length:
  "length (batch_rows c all b) = min BATCH_SIZE (length all - b * BATCH_SIZE)"
  by (simp add: batch_rows_def min.commute)

lemma committed_rejected_length:
  "k \<le> batch_count all \<Longrightarrow>
   length (committed_rows env c all k) + length (rejected_rows env c all k) = length all - k * BATCH_SIZE"
proof (induction "batch_count all - k" arbitrary: k)
  case 0
  then have e: "[k..<batch_count all] = []" by simp
  have "\<not> k * BATCH_SIZE < length all" using 0 by (simp add: batch_count_le)
  moreover have "committed_rows env c all k = []" "rejected_rows env c all k = []"
    by (simp_all only: committed_rows_def rejected_rows_def e list.map concat.simps)
  ultimately show ?case by simp
next
  case (Suc d)
  then have lt: "k < batch_count all" by simp
  then have i: "k * BATCH_SIZE < length all" by (simp add: batch_count_le)
  have d: "d = batch_count all - Suc k" using Suc by simp
  have le: "Suc k \<le> batch_count all" using lt by simp
  have upt: "[k..<batch_count all] = k # [Suc k..<batch_count all]"
    using lt by (simp add: upt_conv_Cons)
  have rows: "committed_rows env c all k =
      (if dish_insert_error env (k + 1) = None then batch_rows c all k else [])
      @ committed_rows env c all (Suc k)"
    by (simp only: committed_rows_def upt list.map concat.simps)
  have rej: "rejected_rows env c all k =
      (if dish_insert_error env (k + 1) = None then [] else batch_rows c all k)
      @ rejected_rows env c all (Suc k)"
    by (simp only: rejected_rows_def upt list.map concat.simps)
  have next_le: "Suc k * BATCH_SIZE \<le> length all \<or> length all - Suc k * BATCH_SIZE = 0"
    by auto
  have "length (committed_rows env c all k) + length (rejected_rows env c all k) =
      length (batch_rows c all k) + (length all - Suc k * BATCH_SIZE)"
    unfolding rows rej using Suc.hyps(1) [OF d le] by (simp del: mult_Suc)
  also have "\<dots> = length all - k * BATCH_SIZE"
    using i by (auto simp: batch_rows_length min_def)
  finally show ?case .
qed

lemma rejected_nonempty:
  assumes "b < batch_count all" and "k \<le> b" and "dish_insert_error env (b + 1) \<noteq> None"
  shows "rejected_rows env c all k \<noteq> []"
proof -
  have "b * BATCH_SIZE < length all" using assms(1) by (simp add: batch_count_le)
  then have "batch_rows c all b \<noteq> []"
    using batch_rows_length [of c all b] by (auto simp: BATCH_SIZE_def)
  moreover have "b \<in> set [k..<batch_count all]" using assms(1,2) by simp
  ultimately show ?thesis
    using assms(3) unfolding rejected_rows_def by (auto simp del: set_upt)
qed

subsection \<open>A new canonical menu\<close>

lemma save_with_new_canonical_menu_ok:
  assumes "canonical_insert_error env = None" and "scan_insert_error env = None"
  shows "fst (save_with_new_canonical_menu env db sr userId) =
           Inr \<lparr>scanId = uuidv4 env, method_used = new_canonical_menu, existingScan = None,
                canonicalId = Some (generated_canonical_id env),
                existingCanonicalMenuFirstScanId = None,
                dishCount = Some (length (committed_rows env (generated_canonical_id env)
                                    (all_dishes (structuredData sr)) 0)),
                newDishes = Some True\<rparr>"
    and "menu_dishes (snd (save_with_new_canonical_menu env db sr userId)) =
           menu_dishes db @ committed_rows env (generated_canonical_id env) (all_dishes (structuredData sr)) 0"
    and "menu_scan (snd (save_with_new_canonical_menu env db sr userId)) =
           menu_scan db @ [scan_row env sr userId (generated_canonical_id env)]"
    and "user_profile (snd (save_with_new_canonical_menu env db sr userId)) = user_profile db"
    and "\<exists>row. canonical_menus (snd (save_with_new_canonical_menu env db sr userId)) =
             map (\<lambda>r. if first_scan_update_error env = None \<and> cm_id r = generated_canonical_id env
                       then r\<lparr>cm_first_scan_id := Some (uuidv4 env)\<rparr> else r) (canonical_menus db) @ [row]
           \<and> cm_id row = generated_canonical_id env
           \<and> cm_content_hash row = contentHash sr
           \<and> cm_dish_count row = count_dishes (structuredData sr)"
  using assms insert_dish_batches_closed [of env _ _ 0]
  by (auto simp: save_with_new_canonical_menu_def Let_def split: option.splits prod.splits)

text \<open>
  C5. For every call on the novel path (no scan of the image by the user is found, the
  user exists or is created, no canonical menu is found by content hash, and the store
  accepts the inserts of the canonical menu and of the scan), whatever the store answers
  to the batches of ten dishes: the call returns a result, it does not raise; every batch
  the store accepts is inserted, also after a refused one; the returned \<open>dishCount\<close> is
  the number of rows inserted into \<open>menu_dishes\<close>; the \<open>canonical_menus\<close> row of the
  call stores the total number of dishes of the menu as its \<open>dish_count\<close>; and the
  returned count is less than that stored count as soon as one batch is refused.
\<close>

theorem partial_dish_insert_is_tolerated:
  assumes "checkForExistingUserScan env db userId (imageHash sr) = None"
    and "ensureUserExists env db userId = (Inr ok, db1)"
    and "checkForExistingCanonicalMenu env db1 (contentHash sr) = None"
    and "canonical_insert_error env = None"
    and "scan_insert_error env = None"
  shows "fst (saveToSupabase env db sr userId) =
           Inr \<lparr>scanId = uuidv4 env, method_used = new_canonical_menu, existingScan = None,
                canonicalId = Some (generated_canonical_id env),
                existingCanonicalMenuFirstScanId = None,
                dishCount = Some (length (committed_rows env (generated_canonical_id env)
                                    (all_dishes (structuredData sr)) 0)),
                newDishes = Some True\<rparr>
         \<and> menu_dishes (snd (saveToSupabase env db sr userId)) =
             menu_dishes db @ committed_rows env (generated_canonical_id env) (all_dishes (structuredData sr)) 0
         \<and> (\<forall>b<batch_count (all_dishes (structuredData sr)).
               dish_insert_error env (b + 1) = None \<longrightarrow>
               set (batch_rows (generated_canonical_id env) (all_dishes (structuredData sr)) b)
                 \<subseteq> set (menu_dishes (snd (saveToSupabase env db sr userId))))
         \<and> (\<exists>row\<in>set (canonical_menus (snd (saveToSupabase env db sr userId))).
               cm_id row = generated_canonical_id env
               \<and> cm_content_hash row = contentHash sr
               \<and> cm_dish_count row = length (all_dishes (structuredData sr)))
         \<and> length (committed_rows env (generated_canonical_id env) (all_dishes (structuredData sr)) 0)
               \<le> length (all_dishes (structuredData sr))
         \<and> ((\<exists>b<batch_count (all_dishes (structuredData sr)). dish_insert_error env (b + 1) \<noteq> None) \<longrightarrow>
               length (committed_rows env (generated_canonical_id env) (all_dishes (structuredData sr)) 0)
                 < length (all_dishes (structuredData sr)))"
proof -
  let ?all = "all_dishes (structuredData sr)"
  let ?c = "generated_canonical_id env"
  note frame = ensureUserExists_frame [OF assms(2)]
  have run: "saveToSupabase env db sr userId = save_with_new_canonical_menu env db1 sr userId"
    using assms(1-3) by (simp add: saveToSupabase_def)
  note new = save_with_new_canonical_menu_ok [OF assms(4,5), of db1 sr userId]
  have total: "length (committed_rows env ?c ?all 0) + length (rejected_rows env ?c ?all 0) = length ?all"
    using committed_rejected_length [of 0 ?all env ?c] by simp
  have dishes: "menu_dishes (snd (saveToSupabase env db sr userId)) = menu_dishes db @ committed_rows env ?c ?all 0"
    unfolding run using new(2) frame by simp
  have accepted: "\<forall>b<batch_count ?all. dish_insert_error env (b + 1) = None \<longrightarrow>
      set (batch_rows ?c ?all b) \<subseteq> set (menu_dishes (snd (saveToSupabase env db sr userId)))"
    unfolding dishes committed_rows_def by auto
  have stored: "\<exists>row\<in>set (canonical_menus (snd (saveToSupabase env db sr userId))).
      cm_id row = ?c \<and> cm_content_hash row = contentHash sr \<and> cm_dish_count row = length ?all"
    unfolding run using new(5) by (auto simp: count_dishes_all_dishes)
  have less: "(\<exists>b<batch_count ?all. dish_insert_error env (b + 1) \<noteq> None) \<longrightarrow>
      length (committed_rows env ?c ?all 0) < length ?all"
  proof
    assume "\<exists>b<batch_count ?all. dish_insert_error env (b + 1) \<noteq> None"
    then obtain b where "b < batch_count ?all" "dish_insert_error env (b + 1) \<noteq> None"
      by blast
    then have "rejected_rows env ?c ?all 0 \<noteq> []"
      using rejected_nonempty [of b ?all 0 env ?c] by simp
    then show "length (committed_rows env ?c ?all 0) < length ?all"
      using total by (cases "rejected_rows env ?c ?all 0") auto
  qed
  show ?thesis
    using new(1) dishes accepted stored total less unfolding run by simp
qed

theorem partial_dish_insert_is_tolerated_witness:
  "checkForExistingUserScan second_batch_fails empty_db ''user-3'' (imageHash scanned_large) = None
   \<and> fst (ensureUserExists second_batch_fails empty_db ''user-3'') = Inr True
   \<and> checkForExistingCanonicalMenu second_batch_fails
        (snd (ensureUserExists second_batch_fails empty_db ''user-3'')) (contentHash scanned_large) = None
   \<and> canonical_insert_error second_batch_fails = None
   \<and> scan_insert_error second_batch_fails = None
   \<and> batch_count (all_dishes large_menu) = 3
   \<and> dish_insert_error second_batch_fails 2 = Some statement_timeout
   \<and> fst (saveToSupabase second_batch_fails empty_db scanned_large ''user-3'') =
       Inr \<lparr>scanId = ''scan-2'', method_used = new_canonical_menu, existingScan = None,
            canonicalId = Some ''canon-2'', existingCanonicalMenuFirstScanId = None,
            dishCount = Some 15, newDishes = Some True\<rparr>
   \<and> length (menu_dishes (snd (saveToSupabase second_batch_fails empty_db scanned_large ''user-3''))) = 15
   \<and> length (all_dishes large_menu) = 25"
proof -
  have a: "checkForExistingUserScan second_batch_fails empty_db ''user-3'' (imageHash scanned_large) = None"
    by (simp add: checkForExistingUserScan_def second_batch_fails_def no_errors_def empty_db_def
        scanned_large_def)
  have b: "ensureUserExists second_batch_fails empty_db ''user-3'' =
      (Inr True, empty_db\<lparr>user_profile :=
         [\<lparr>up_id = ''user-3'', up_email = ''test@example.com'', up_created_at = 100\<rparr>]\<rparr>)"
    by (simp add: ensureUserExists_def select_user_def single_row_def second_batch_fails_def
        no_errors_def empty_db_def)
  have c: "checkForExistingCanonicalMenu second_batch_fails
      (empty_db\<lparr>user_profile :=
         [\<lparr>up_id = ''user-3'', up_email = ''test@example.com'', up_created_at = 100\<rparr>]\<rparr>)
      (contentHash scanned_large) = None"
    by (simp add: checkForExistingCanonicalMenu_def second_batch_fails_def no_errors_def empty_db_def
        scanned_large_def)
  have d: "canonical_insert_error second_batch_fails = None" "scan_insert_error second_batch_fails = None"
    by (simp_all add: second_batch_fails_def no_errors_def)
  have ids: "uuidv4 second_batch_fails = ''scan-2''" "generated_canonical_id second_batch_fails = ''canon-2''"
    by (simp_all add: second_batch_fails_def no_errors_def)
  have menu: "structuredData scanned_large = large_menu"
    by (simp add: scanned_large_def)
  have n: "length (all_dishes large_menu) = 25"
    by (simp add: all_dishes_def large_menu_def)
  have k: "batch_count (all_dishes large_menu) = 3"
    by (simp add: n batch_count_def BATCH_SIZE_def)
  have e: "dish_insert_error second_batch_fails 2 = Some statement_timeout"
    by (simp add: second_batch_fails_def)
  have m: "length (committed_rows second_batch_fails ''canon-2'' (all_dishes large_menu) 0) = 15"
    by (simp add: committed_rows_def all_dishes_def large_menu_def batch_count_def BATCH_SIZE_def
      second_batch_fails_def no_errors_def batch_rows_def upt_rec)
  have none: "menu_dishes empty_db = []"
    by (simp add: empty_db_def)
  from partial_dish_insert_is_tolerated [OF a b c d]
  show ?thesis
    using a c d e by (simp add: b ids menu n k m none)
qed

subsection \<open>Errors of the store\<close>

text \<open>
  C6, as stated, fails: no canonical menu is found, the store answers the insert of the
  canonical menu with a uniqueness conflict (another scan created it first), and the call
  raises \<open>Canonical menu insert failed\<close>; it does not go on as a canonical match and
  inserts no scan.
\<close>

theorem canonical_conflict_is_raised:
  "saveToSupabase (no_errors\<lparr>canonical_insert_error := Some unique_violation\<rparr>) empty_db scanned ''user-1'' =
     (Inl (Error (js ''Canonical menu insert failed: duplicate key value violates unique constraint'')),
      empty_db\<lparr>user_profile := [\<lparr>up_id = ''user-1'', up_email = ''test@example.com'', up_created_at = 100\<rparr>]\<rparr>)"
  by (simp add: saveToSupabase_def checkForExistingUserScan_def ensureUserExists_def select_user_def
      single_row_def checkForExistingCanonicalMenu_def save_with_new_canonical_menu_def
      empty_db_def scanned_def no_errors_def unique_violation_def js_def)

text \<open>
  C6, amended. For every call on the novel path (no scan of the image by the user is
  found, the user exists or is created, no canonical menu is found by content hash) where
  the insert of the canonical menu returns an error, a uniqueness conflict on the content
  hash or any other, \<open>saveToSupabase\<close> raises the error \<open>Canonical menu insert failed:\<close>
  followed by the message of the store; it does not succeed as a canonical match, and it
  writes no row into \<open>canonical_menus\<close>, \<open>menu_scan\<close> or \<open>menu_dishes\<close>.
\<close>

theorem canonical_insert_error_is_raised:
  assumes "checkForExistingUserScan env db userId (imageHash sr) = None"
    and "ensureUserExists env db userId = (Inr ok, db1)"
    and "checkForExistingCanonicalMenu env db1 (contentHash sr) = None"
    and "canonical_insert_error env = Some e"
  shows "saveToSupabase env db sr userId =
           (Inl (Error (js ''Canonical menu insert failed: '' @ message e)), db1)
         \<and> canonical_menus db1 = canonical_menus db
         \<and> menu_scan db1 = menu_scan db
         \<and> menu_dishes db1 = menu_dishes db"
  using assms ensureUserExists_frame [OF assms(2)]
  by (simp add: saveToSupabase_def save_with_new_canonical_menu_def)

theorem canonical_insert_error_is_raised_witness:
  "checkForExistingUserScan (no_errors\<lparr>canonical_insert_error := Some unique_violation\<rparr>)
      db_after_first_scan ''user-2'' (imageHash scanned_large) = None
   \<and> ensureUserExists (no_errors\<lparr>canonical_insert_error := Some unique_violation\<rparr>)
        db_after_first_scan ''user-2'' =
       (Inr True, db_after_first_scan\<lparr>user_profile := user_profile db_after_first_scan @
          [\<lparr>up_id = ''user-2'', up_email = ''test@example.com'', up_created_at = 100\<rparr>]\<rparr>)
   \<and> contentHash scanned_large = Some ''0a78''
   \<and> checkForExistingCanonicalMenu (no_errors\<lparr>canonical_insert_error := Some unique_violation\<rparr>)
        (db_after_first_scan\<lparr>user_profile := user_profile db_after_first_scan @
          [\<lparr>up_id = ''user-2'', up_email = ''test@example.com'', up_created_at = 100\<rparr>]\<rparr>)
        (contentHash scanned_large) = None
   \<and> canonical_insert_error (no_errors\<lparr>canonical_insert_error := Some unique_violation\<rparr>) = Some unique_violation
   \<and> saveToSupabase (no_errors\<lparr>canonical_insert_error := Some unique_violation\<rparr>)
        db_after_first_scan scanned_large ''user-2'' =
       (Inl (Error (js ''Canonical menu insert failed: '' @ message unique_violation)),
        db_after_first_scan\<lparr>user_profile := user_profile db_after_first_scan @
          [\<lparr>up_id = ''user-2'', up_email = ''test@example.com'', up_created_at = 100\<rparr>]\<rparr>)"
proof -
  let ?env = "no_errors\<lparr>canonical_insert_error := Some unique_violation\<rparr>"
  let ?db1 = "db_after_first_scan\<lparr>user_profile := user_profile db_after_first_scan @
          [\<lparr>up_id = ''user-2'', up_email = ''test@example.com'', up_created_at = 100\<rparr>]\<rparr>"
  have a: "checkForExistingUserScan ?env db_after_first_scan ''user-2'' (imageHash scanned_large) = None"
    by (simp add: checkForExistingUserScan_def no_errors_def db_after_first_scan_def scanned_large_def
        first_scan_row_def)
  have b: "ensureUserExists ?env db_after_first_scan ''user-2'' = (Inr True, ?db1)"
    by (simp add: ensureUserExists_def select_user_def single_row_def no_errors_def db_after_first_scan_def)
  have h: "contentHash scanned_large = Some ''0a78''"
    by (simp add: scanned_large_def)
  have c: "checkForExistingCanonicalMenu ?env ?db1 (contentHash scanned_large) = None"
    by (simp add: checkForExistingCanonicalMenu_def no_errors_def db_after_first_scan_def h)
  have d: "canonical_insert_error ?env = Some unique_violation"
    by simp
  from canonical_insert_error_is_raised [OF a b c d]
  show ?thesis
    using a b c d h by simp
qed

text \<open>
  C7, as stated, fails: the user has no row, the store answers the insert with a
  unique-constraint conflict (the row was created concurrently), and
  \<open>ensureUserExists\<close> raises \<open>User creation failed\<close>.
\<close>

theorem user_conflict_is_raised:
  "ensureUserExists (no_errors\<lparr>user_insert_error := Some unique_violation\<rparr>) empty_db ''user-1'' =
     (Inl (Error (js ''User creation failed: duplicate key value violates unique constraint'')), empty_db)"
  by (simp add: ensureUserExists_def select_user_def single_row_def empty_db_def no_errors_def
      unique_violation_def js_def)

text \<open>
  C7, amended. For every user id that has no row in \<open>user_profile\<close>, the lookups
  returning no error: a call whose insert the store accepts succeeds and appends exactly
  one row for the id, and a call that follows it for the same id succeeds and writes
  nothing, whatever the store would answer to an insert (the function is idempotent in
  sequence); a call whose insert returns an error, a unique-constraint conflict or any
  other, raises \<open>User creation failed:\<close> followed by the message of the store, and
  writes nothing.
\<close>

theorem ensureUserExists_in_sequence:
  assumes "user_select_error env = None" and "user_select_error env' = None"
    and "filter (\<lambda>r. up_id r = userId) (user_profile db) = []"
  shows "(user_insert_error env = None \<longrightarrow>
            ensureUserExists env db userId =
              (Inr True, db\<lparr>user_profile := user_profile db @
                 [\<lparr>up_id = userId, up_email = ''test@example.com'', up_created_at = now_user env\<rparr>]\<rparr>)
            \<and> ensureUserExists env' (snd (ensureUserExists env db userId)) userId =
                (Inr True, snd (ensureUserExists env db userId))
            \<and> length (filter (\<lambda>r. up_id r = userId)
                 (user_profile (snd (ensureUserExists env db userId)))) = 1)
       \<and> (\<forall>e. user_insert_error env = Some e \<longrightarrow>
            ensureUserExists env db userId =
              (Inl (Error (js ''User creation failed: '' @ message e)), db))"
  using assms
  by (auto simp: ensureUserExists_def select_user_def single_row_def)

theorem ensureUserExists_in_sequence_witness:
  "user_select_error no_errors = None
   \<and> filter (\<lambda>r. up_id r = ''user-1'') (user_profile empty_db) = []
   \<and> user_insert_error no_errors = None
   \<and> ensureUserExists no_errors empty_db ''user-1'' =
       (Inr True, empty_db\<lparr>user_profile :=
          [\<lparr>up_id = ''user-1'', up_email = ''test@example.com'', up_created_at = 100\<rparr>]\<rparr>)
   \<and> ensureUserExists (no_errors\<lparr>user_insert_error := Some unique_violation\<rparr>)
        (empty_db\<lparr>user_profile :=
          [\<lparr>up_id = ''user-1'', up_email = ''test@example.com'', up_created_at = 100\<rparr>]\<rparr>) ''user-1'' =
       (Inr True, empty_db\<lparr>user_profile :=
          [\<lparr>up_id = ''user-1'', up_email = ''test@example.com'', up_created_at = 100\<rparr>]\<rparr>)"
proof -
  have a: "user_select_error no_errors = None"
    and a': "user_select_error (no_errors\<lparr>user_insert_error := Some unique_violation\<rparr>) = None"
    and i: "user_insert_error no_errors = None"
    and t: "now_user no_errors = 100"
    by (simp_all add: no_errors_def)
  have f: "filter (\<lambda>r. up_id r = ''user-1'') (user_profile empty_db) = []"
    and u: "user_profile empty_db = []"
    by (simp_all add: empty_db_def)
  from ensureUserExists_in_sequence [OF a a' f]
  have first: "ensureUserExists no_errors empty_db ''user-1'' =
      (Inr True, empty_db\<lparr>user_profile := user_profile empty_db @
         [\<lparr>up_id = ''user-1'', up_email = ''test@example.com'', up_created_at = now_user no_errors\<rparr>]\<rparr>)"
    and second: "ensureUserExists (no_errors\<lparr>user_insert_error := Some unique_violation\<rparr>)
        (snd (ensureUserExists no_errors empty_db ''user-1'')) ''user-1'' =
      (Inr True, snd (ensureUserExists no_errors empty_db ''user-1''))"
    using i by blast+
  show ?thesis
    using second a f i unfolding first by (simp add: t u)
qed

text \<open>
  C10. Whatever error the store returns to either duplicate query, the check evaluates
  to "not found": the lookup of the user's scan by image hash and the lookup of the
  canonical menu by content hash both return nothing, and neither raises. So the call goes
  on as if nothing existed: in the tables where \<open>user-1\<close> has scanned the image
  \<open>ab12\<close> of the menu \<open>cd34\<close>, a failed scan query makes the same user's second
  call insert a second scan of that image, and failed scan and canonical queries make it
  insert a second canonical menu with the content hash \<open>cd34\<close>.
\<close>

theorem dedup_query_errors_are_swallowed:
  "checkForExistingUserScan (env\<lparr>user_scan_query_error := Some e\<rparr>) db userId image_hash = None
   \<and> checkForExistingCanonicalMenu (env\<lparr>canonical_query_error := Some e\<rparr>) db content_hash = None
   \<and> fst (saveToSupabase (no_errors\<lparr>user_scan_query_error := Some statement_timeout\<rparr>)
            db_after_first_scan scanned ''user-1'') =
       Inr \<lparr>scanId = ''scan-2'', method_used = canonical_menu_reuse, existingScan = None,
            canonicalId = Some ''canon-1'', existingCanonicalMenuFirstScanId = None,
            dishCount = Some 2, newDishes = Some False\<rparr>
   \<and> menu_scan (snd (saveToSupabase (no_errors\<lparr>user_scan_query_error := Some statement_timeout\<rparr>)
            db_after_first_scan scanned ''user-1'')) =
       [first_scan_row, second_scan_row ''user-1'' ''canon-1'']
   \<and> map cm_content_hash
         (canonical_menus (snd (saveToSupabase
            (no_errors\<lparr>user_scan_query_error := Some statement_timeout,
                        canonical_query_error := Some statement_timeout\<rparr>)
            db_after_first_scan scanned ''user-1''))) =
       [Some ''cd34'', Some ''cd34'']"
proof -
  have a: "checkForExistingUserScan (env\<lparr>user_scan_query_error := Some e\<rparr>) db userId image_hash = None"
    by (simp add: checkForExistingUserScan_def)
  have b: "checkForExistingCanonicalMenu (env\<lparr>canonical_query_error := Some e\<rparr>) db content_hash = None"
    by (simp add: checkForExistingCanonicalMenu_def)
  have c: "saveToSupabase (no_errors\<lparr>user_scan_query_error := Some statement_timeout\<rparr>)
        db_after_first_scan scanned ''user-1'' =
       (Inr \<lparr>scanId = ''scan-2'', method_used = canonical_menu_reuse, existingScan = None,
             canonicalId = Some ''canon-1'', existingCanonicalMenuFirstScanId = None,
             dishCount = Some 2, newDishes = Some False\<rparr>,
        db_after_first_scan\<lparr>menu_scan := [first_scan_row, second_scan_row ''user-1'' ''canon-1'']\<rparr>)"
    by (simp add: saveToSupabase_def checkForExistingUserScan_def ensureUserExists_def select_user_def
      single_row_def checkForExistingCanonicalMenu_def save_with_existing_canonical_menu_def
      scan_row_def db_after_first_scan_def scanned_def no_errors_def first_scan_row_def
      second_scan_row_def small_menu_def)
  have user: "ensureUserExists (no_errors\<lparr>user_scan_query_error := Some statement_timeout,
                        canonical_query_error := Some statement_timeout\<rparr>) db_after_first_scan ''user-1'' =
      (Inr True, db_after_first_scan)"
    by (simp add: ensureUserExists_def select_user_def single_row_def no_errors_def db_after_first_scan_def)
  have a': "checkForExistingUserScan (no_errors\<lparr>user_scan_query_error := Some statement_timeout,
                        canonical_query_error := Some statement_timeout\<rparr>) db_after_first_scan ''user-1''
      (imageHash scanned) = None"
    by (simp add: checkForExistingUserScan_def)
  have b': "checkForExistingCanonicalMenu (no_errors\<lparr>user_scan_query_error := Some statement_timeout,
                        canonical_query_error := Some statement_timeout\<rparr>) db_after_first_scan
      (contentHash scanned) = None"
    by (simp add: checkForExistingCanonicalMenu_def)
  have d: "map cm_content_hash
         (canonical_menus (snd (saveToSupabase
            (no_errors\<lparr>user_scan_query_error := Some statement_timeout,
                        canonical_query_error := Some statement_timeout\<rparr>)
            db_after_first_scan scanned ''user-1''))) =
       [Some ''cd34'', Some ''cd34'']"
  proof -
    let ?env = "no_errors\<lparr>user_scan_query_error := Some statement_timeout,
                        canonical_query_error := Some statement_timeout\<rparr>"
    have run: "saveToSupabase ?env db_after_first_scan scanned ''user-1'' =
        save_with_new_canonical_menu ?env db_after_first_scan scanned ''user-1''"
      by (simp add: saveToSupabase_def a' b' user)
    have ok: "canonical_insert_error ?env = None" "scan_insert_error ?env = None"
      by (simp_all add: no_errors_def)
    from save_with_new_canonical_menu_ok(5) [OF ok, of db_after_first_scan scanned "''user-1''"]
    obtain row where
      "canonical_menus (snd (save_with_new_canonical_menu ?env db_after_first_scan scanned ''user-1'')) =
         map (\<lambda>r. if first_scan_update_error ?env = None \<and> cm_id r = generated_canonical_id ?env
                   then r\<lparr>cm_first_scan_id := Some (uuidv4 ?env)\<rparr> else r)
             (canonical_menus db_after_first_scan) @ [row]"
      "cm_content_hash row = contentHash scanned"
      by blast
    then show ?thesis
      unfolding run by (simp add: db_after_first_scan_def scanned_def)
  qed
  show ?thesis
    unfolding c using a b d by simp
qed

section \<open>Properties of the content hash\<close>










subsection \<open>The example menus\<close>








end
